theory Spec2Isabelle
  imports Complex_Main "HOL-Library.Word" "HOL-Library.Sublist"
begin

section \<open>Data model (types.ts)\<close>

text \<open>
  Text is modelled by Isabelle strings (lists of 8-bit characters); text outside ASCII
  stands for its UTF-8 bytes. \<open>SpeakerRole\<close> is a union of string literals in
  TypeScript, which nothing checks when the program runs: a value cast with
  \<open>as SpeakerRole\<close> is stored as it is, so the role is a string here.
  A \<open>Date\<close> is its reading in milliseconds.
\<close>

type_synonym SpeakerRole = string

record TranscriptItem =
  item_id :: string
  speaker :: SpeakerRole
  item_text :: string
  timestamp :: int
  isFinal :: bool

record RagDocument =
  doc_id :: string
  doc_name :: string
  doc_content :: string
  doc_type :: string

datatype AppStatus = IDLE | CONNECTING | RECORDING | PROCESSING | ERROR


section \<open>services/audioUtils: the PCM encoder and base64\<close>











text \<open>\<open>btoa\<close>: base64 with the standard alphabet and \<open>=\<close> padding.\<close>

definition base64Alphabet :: string where
  "base64Alphabet = ''ABCDEFGHIJKLMNOPQRSTUVWXYZabcdefghijklmnopqrstuvwxyz0123456789+/''"

definition b64 :: "nat \<Rightarrow> char" where
  "b64 n = base64Alphabet ! (n mod 64)"

fun btoa :: "string \<Rightarrow> string" where
  "btoa [] = []"
| "btoa [a] =
     (let x = (of_char a :: nat)
      in [b64 (x div 4), b64 ((x mod 4) * 16), CHR ''='', CHR ''=''])"
| "btoa [a, b] =
     (let x = (of_char a :: nat); y = (of_char b :: nat)
      in [b64 (x div 4), b64 ((x mod 4) * 16 + y div 16), b64 ((y mod 16) * 4), CHR ''=''])"
| "btoa (a # b # c # rest) =
     (let x = (of_char a :: nat); y = (of_char b :: nat); z = (of_char c :: nat)
      in [b64 (x div 4), b64 ((x mod 4) * 16 + y div 16),
          b64 ((y mod 16) * 4 + z div 64), b64 (z mod 64)] @ btoa rest)"

text \<open>
  \<open>base64Encode\<close> and \<open>arrayBufferToBase64\<close> have the same body: one character per
  byte (\<open>String.fromCharCode\<close>), then \<open>btoa\<close>.
\<close>

definition fromCharCode :: "8 word \<Rightarrow> char" where
  "fromCharCode b = char_of (unat b)"


definition arrayBufferToBase64 :: "8 word list \<Rightarrow> string" where
  "arrayBufferToBase64 buffer = btoa (map fromCharCode buffer)"




section \<open>What the App component reads from its environment\<close>

text \<open>
  \<open>Number.prototype.toString\<close> on the integers the program applies it to (a clock reading
  \<open>now\<close>, an array index): decimal digits, with a minus sign for a negative number.
\<close>

definition digit :: "nat \<Rightarrow> char" where
  "digit d = char_of (48 + d)"

fun string_of_nat :: "nat \<Rightarrow> string" where
  "string_of_nat n =
     (if n < 10 then [digit n] else string_of_nat (n div 10) @ [digit (n mod 10)])"

declare string_of_nat.simps [simp del]


text \<open>
  \<open>String.prototype.trim\<close> and the class \<open>\s\<close>, on the ASCII white space (tab, line
  feed, vertical tab, form feed, carriage return, space); the white space JavaScript
  knows outside ASCII is not modelled.
\<close>

definition isWhiteSpace :: "char \<Rightarrow> bool" where
  "isWhiteSpace c =
     (c = CHR 0x09 \<or> c = CHR 0x0A \<or> c = CHR 0x0B \<or> c = CHR 0x0C \<or> c = CHR 0x0D \<or> c = CHR 0x20)"

definition trim :: "string \<Rightarrow> string" where
  "trim s = rev (dropWhile isWhiteSpace (rev (dropWhile isWhiteSpace s)))"


text \<open>
  The exceptions the two analysis functions can end with, and the messages the component
  shows. The wording of a message (Japanese text in the source) is not reproduced: each
  constructor stands for one message of the source, with the exception it reports.
\<close>

datatype error =
    ServiceFailure string \<comment> \<open>\<open>generateContent\<close> rejected; the rejection's message\<close>
  | RecordingTooLarge \<comment> \<open>the \<open>Error\<close> thrown by the size check\<close>
  | EmptyResponse \<comment> \<open>\<open>new Error("Empty response")\<close>\<close>
  | JsonSyntaxError \<comment> \<open>the \<open>SyntaxError\<close> of \<open>JSON.parse\<close>\<close>
  | JsonUnparseable \<comment> \<open>the \<open>Error\<close> thrown in place of that \<open>SyntaxError\<close>\<close>
  | NotAFunction \<comment> \<open>the \<open>TypeError\<close> of \<open>.map\<close> on a value that is no array\<close>

datatype message =
    AnalysisFailed error \<comment> \<open>set by the \<open>catch\<close> of \<open>analyzeAudioAndDiarize\<close>\<close>
  | SummaryFailed error \<comment> \<open>set by the \<open>catch\<close> of \<open>generateSummary\<close>\<close>

datatype alert = NothingToSummarize

text \<open>
  A request to the generative service (\<open>ai.models.generateContent\<close>). The prompt text is
  not modelled: a request carries the data its parts are assembled from.
\<close>

datatype request =
    Diarize string string \<comment> \<open>the MIME type and the base64 data of the inline audio\<close>
  | Summarize string string "TranscriptItem list" "RagDocument list"
      \<comment> \<open>the template id, the custom instruction, the transcript, the documents\<close>

datatype effect = Request request | Alert alert

text \<open>
  The value \<open>JSON.parse\<close> returns for the reply of a diarization request, at the shape
  the request prescribes: an array of objects with string fields \<open>speaker\<close> and \<open>text\<close>.
  \<open>NotAnArray\<close> is any value that has no \<open>map\<close> method (an object, a number, null),
  on which \<open>parsed.map(...)\<close> throws a \<open>TypeError\<close>. Arrays with elements of another
  shape are outside this model.
\<close>

record DiarRecord =
  rec_speaker :: string
  rec_text :: string

datatype parsed = RecordArray "DiarRecord list" | NotAnArray

text \<open>
  The environment: the API key, the service (what it answers to a request: a rejection with
  its message, or a response whose \<open>text\<close> may be undefined), \<open>JSON.parse\<close> (\<open>None\<close>
  when it throws) and the clock read by \<open>new Date()\<close> for the item at an index.
  A run sends at most one request, so a service that is a function of the request stands
  for any service. The functions that call it are asynchronous: the model gives the state
  and the effects of a run once it has completed, from the state it started in.
\<close>

record Env =
  API_KEY :: "string option"
  generateContent :: "request \<Rightarrow> string + string option"
  JSON_parse :: "string \<Rightarrow> parsed option"
  newDate :: "nat \<Rightarrow> int"

definition hasApiKey :: "Env \<Rightarrow> bool" where
  "hasApiKey env = (case API_KEY env of None \<Rightarrow> False | Some k \<Rightarrow> k \<noteq> [])"

record Blob =
  blob_bytes :: "8 word list"
  blob_type :: string

text \<open>The state of the component (\<open>useState\<close>), shared by its two versions.\<close>

record AppState =
  status :: AppStatus
  transcripts :: "TranscriptItem list"
  summary :: string
  documents :: "RagDocument list"
  errorMsg :: "message option"
  recordedBlob :: "Blob option"
  hasPostProcessed :: bool
  isSessionFinished :: bool


section \<open>The App component with live merging (src/unnamed/part_001)\<close>

text \<open>This version keeps two more cells (\<open>useRef\<close>): the active entry and the last update.\<close>

record LiveState = AppState +
  activeTranscriptIdRef :: "string option"
  lastUpdateTimeRef :: int

definition initialLiveState :: LiveState where
  "initialLiveState =
     \<lparr>status = IDLE, transcripts = [], summary = [], documents = [], errorMsg = None,
      recordedBlob = None, hasPostProcessed = False, isSessionFinished = False,
      activeTranscriptIdRef = None, lastUpdateTimeRef = 0\<rparr>"




definition updateTranscript_live :: "string \<Rightarrow> string \<Rightarrow> LiveState \<Rightarrow> LiveState" where
  "updateTranscript_live id' newText s =
     s\<lparr>transcripts :=
         map (\<lambda>t. if item_id t = id' then t\<lparr>item_text := newText\<rparr> else t) (transcripts s)\<rparr>"

text \<open>
  The body of the \<open>try\<close> of \<open>analyzeAudioAndDiarize\<close>: the new transcript or the
  exception that ends it, and the requests it has sent by then.
\<close>

definition MAX_BASE64_LENGTH :: nat where
  "MAX_BASE64_LENGTH = 19 * 1024 * 1024"

definition postProcessItems :: "Env \<Rightarrow> DiarRecord list \<Rightarrow> TranscriptItem list" where
  "postProcessItems env records =
     map (\<lambda>(index, item).
            \<lparr>item_id = ''post-process-'' @ string_of_nat index, speaker = rec_speaker item,
             item_text = rec_text item, timestamp = newDate env index, isFinal = True\<rparr>)
         (enumerate 0 records)"

definition diarizeRequest_live :: "Blob \<Rightarrow> request" where
  "diarizeRequest_live targetBlob =
     Diarize (if blob_type targetBlob = [] then ''audio/webm'' else blob_type targetBlob)
       (arrayBufferToBase64 (blob_bytes targetBlob))"

definition diarize_live :: "Env \<Rightarrow> Blob \<Rightarrow> (error + TranscriptItem list) \<times> effect list" where
  "diarize_live env targetBlob =
     (let base64Audio = arrayBufferToBase64 (blob_bytes targetBlob)
      in if length base64Audio > MAX_BASE64_LENGTH then (Inl RecordingTooLarge, [])
         else
           let req = diarizeRequest_live targetBlob
           in (case generateContent env req of
                 Inl msg \<Rightarrow> Inl (ServiceFailure msg)
               | Inr None \<Rightarrow> Inl EmptyResponse
               | Inr (Some jsonText) \<Rightarrow>
                   if jsonText = [] then Inl EmptyResponse
                   else (case JSON_parse env jsonText of
                           None \<Rightarrow> Inl JsonSyntaxError
                         | Some NotAnArray \<Rightarrow> Inl NotAFunction
                         | Some (RecordArray records) \<Rightarrow> Inr (postProcessItems env records)),
               [Request req]))"

definition analyzeAudioAndDiarize_live ::
  "Env \<Rightarrow> Blob option \<Rightarrow> LiveState \<Rightarrow> LiveState \<times> effect list" where
  "analyzeAudioAndDiarize_live env blobToAnalyze s =
     (case (case blobToAnalyze of Some b \<Rightarrow> Some b | None \<Rightarrow> recordedBlob s) of
        None \<Rightarrow> (s, [])
      | Some targetBlob \<Rightarrow>
          if \<not> hasApiKey env then (s, [])
          else
            let s1 = s\<lparr>status := PROCESSING, errorMsg := None\<rparr>
            in (case diarize_live env targetBlob of
                  (Inr newTranscripts, effects) \<Rightarrow>
                    (s1\<lparr>transcripts := newTranscripts, hasPostProcessed := True,
                        status := IDLE\<rparr>, effects)
                | (Inl e, effects) \<Rightarrow>
                    (s1\<lparr>errorMsg := Some (AnalysisFailed e), status := IDLE\<rparr>, effects)))"

text \<open>
  \<open>generateSummary\<close> of this version: no check of its inputs before the request. The text
  shown when the response has none is the UTF-8 of the source's literal.
\<close>

definition summaryFailedText :: string where
  "summaryFailedText =
     [CHR 0xE8, CHR 0xA6, CHR 0x81, CHR 0xE7, CHR 0xB4, CHR 0x84, CHR 0xE7, CHR 0x94, CHR 0x9F,
      CHR 0xE6, CHR 0x88, CHR 0x90, CHR 0xE5, CHR 0xA4, CHR 0xB1, CHR 0xE6, CHR 0x95, CHR 0x97]"

definition generateSummary_live ::
  "Env \<Rightarrow> string \<Rightarrow> string \<Rightarrow> LiveState \<Rightarrow> LiveState \<times> effect list" where
  "generateSummary_live env templateId customInstruction s =
     (if \<not> hasApiKey env then (s, [])
      else
        let req = Summarize templateId customInstruction (transcripts s) (documents s)
        in (case generateContent env req of
              Inr response_text \<Rightarrow>
                s\<lparr>status := IDLE,
                  summary := (case response_text of
                                None \<Rightarrow> summaryFailedText
                              | Some t \<Rightarrow> if t = [] then summaryFailedText else t)\<rparr>
            | Inl msg \<Rightarrow>
                s\<lparr>status := IDLE, errorMsg := Some (SummaryFailed (ServiceFailure msg))\<rparr>,
            [Request req]))"




section \<open>The App component of src/App.tsx\<close>

definition initialAppState :: AppState where
  "initialAppState =
     \<lparr>status = IDLE, transcripts = [], summary = [], documents = [], errorMsg = None,
      recordedBlob = None, hasPostProcessed = False, isSessionFinished = False\<rparr>"

text \<open>\<open>updateTranscript(id, text, isFinal)\<close>; \<open>date\<close> is the reading of its \<open>new Date()\<close>.\<close>

definition updateTranscript_app :: "string \<Rightarrow> string \<Rightarrow> bool \<Rightarrow> int \<Rightarrow> AppState \<Rightarrow> AppState" where
  "updateTranscript_app id' text isFinal' date s =
     (case find (\<lambda>t. item_id t = id') (transcripts s) of
        Some existing \<Rightarrow>
          s\<lparr>transcripts :=
              map (\<lambda>t. if item_id t = id' then t\<lparr>item_text := text, isFinal := isFinal'\<rparr> else t)
                  (transcripts s)\<rparr>
      | None \<Rightarrow>
          s\<lparr>transcripts := transcripts s @
              [\<lparr>item_id = id', speaker = ''Staff'', item_text = text, timestamp = date,
                isFinal = isFinal'\<rparr>]\<rparr>)"

text \<open>The \<open>onEdit\<close> handler given to the transcript view.\<close>

definition onEdit_app :: "string \<Rightarrow> string \<Rightarrow> int \<Rightarrow> AppState \<Rightarrow> AppState" where
  "onEdit_app id' text date s = updateTranscript_app id' text True date s"

text \<open>
  The cleaning of the reply. \<open>jsonText.match(/\[[\s\S]*\]/)\<close> matches from the first
  \<open>[\<close> to the last \<open>]\<close> after it. Without a match, every \<open>```json\<close> with the white
  space after it and then every \<open>```\<close> is removed, and the result trimmed.
\<close>

definition matchArray :: "string \<Rightarrow> string option" where
  "matchArray jsonText =
     (let fromOpen = dropWhile (\<lambda>c. c \<noteq> CHR ''['') jsonText;
          m = rev (dropWhile (\<lambda>c. c \<noteq> CHR '']'') (rev fromOpen))
      in if m = [] then None else Some m)"

definition fence :: string where
  "fence = [CHR 0x60, CHR 0x60, CHR 0x60]"

function removeJsonFences :: "string \<Rightarrow> string" where
  "removeJsonFences [] = []"
| "removeJsonFences (c # cs) =
     (if take 7 (c # cs) = fence @ ''json''
      then removeJsonFences (dropWhile isWhiteSpace (drop 6 cs))
      else c # removeJsonFences cs)"
  by pat_completeness auto
termination
  by (relation "measure length")
     (auto simp: less_Suc_eq_le intro!: order_trans [OF length_dropWhile_le])

fun removeFences :: "string \<Rightarrow> string" where
  "removeFences [] = []"
| "removeFences (c # cs) =
     (if take 3 (c # cs) = fence then removeFences (drop 2 cs) else c # removeFences cs)"

definition cleanJsonText :: "string \<Rightarrow> string" where
  "cleanJsonText jsonText =
     (case matchArray jsonText of
        Some m \<Rightarrow> m
      | None \<Rightarrow> trim (removeFences (removeJsonFences jsonText)))"

definition autoItems :: "Env \<Rightarrow> DiarRecord list \<Rightarrow> TranscriptItem list" where
  "autoItems env records =
     map (\<lambda>(index, item).
            \<lparr>item_id = ''auto-'' @ string_of_nat index,
             speaker = (if rec_speaker item = ''Staff'' \<or> rec_speaker item = ''Client''
                        then rec_speaker item else ''Staff''),
             item_text = rec_text item, timestamp = newDate env index, isFinal = True\<rparr>)
         (enumerate 0 records)"

definition diarizeRequest_app :: "Blob \<Rightarrow> request" where
  "diarizeRequest_app audioBlob = Diarize ''audio/webm'' (arrayBufferToBase64 (blob_bytes audioBlob))"

definition diarize_app :: "Env \<Rightarrow> Blob \<Rightarrow> (error + TranscriptItem list) \<times> effect list" where
  "diarize_app env audioBlob =
     (let req = diarizeRequest_app audioBlob
      in (case generateContent env req of
            Inl msg \<Rightarrow> Inl (ServiceFailure msg)
          | Inr response_text \<Rightarrow>
              (let jsonText = cleanJsonText (case response_text of None \<Rightarrow> [] | Some t \<Rightarrow> t)
               in case JSON_parse env jsonText of
                    None \<Rightarrow> Inl JsonUnparseable
                  | Some NotAnArray \<Rightarrow> Inl NotAFunction
                  | Some (RecordArray records) \<Rightarrow> Inr (autoItems env records)),
          [Request req]))"

definition analyzeAudioAndDiarize_app :: "Env \<Rightarrow> Blob \<Rightarrow> AppState \<Rightarrow> AppState \<times> effect list" where
  "analyzeAudioAndDiarize_app env audioBlob s =
     (if \<not> hasApiKey env then (s, [])
      else
        let s1 = s\<lparr>status := PROCESSING, errorMsg := None\<rparr>
        in (case diarize_app env audioBlob of
              (Inr newTranscripts, effects) \<Rightarrow>
                (s1\<lparr>transcripts := newTranscripts, hasPostProcessed := True,
                    status := IDLE\<rparr>, effects)
            | (Inl e, effects) \<Rightarrow>
                (s1\<lparr>errorMsg := Some (AnalysisFailed e), status := IDLE\<rparr>, effects)))"

definition generateSummary_app ::
  "Env \<Rightarrow> string \<Rightarrow> string \<Rightarrow> AppState \<Rightarrow> AppState \<times> effect list" where
  "generateSummary_app env templateId customInstruction s =
     (if \<not> hasApiKey env then (s, [])
      else if transcripts s = [] \<and> documents s = [] then (s, [Alert NothingToSummarize])
      else
        let req = Summarize templateId customInstruction (transcripts s) (documents s)
        in (case generateContent env req of
              Inr response_text \<Rightarrow>
                s\<lparr>status := IDLE,
                  summary := (case response_text of None \<Rightarrow> [] | Some t \<Rightarrow> t)\<rparr>
            | Inl msg \<Rightarrow>
                s\<lparr>status := IDLE, errorMsg := Some (SummaryFailed (ServiceFailure msg))\<rparr>,
            [Request req]))"

text \<open>
  What the component renders: the button that calls \<open>startRecording\<close> (App.tsx), and
  the \<open>disabled\<close> attribute of the button that calls \<open>onGenerate\<close> (SummaryPanel.tsx).
\<close>

definition startButtonShown :: "AppState \<Rightarrow> bool" where
  "startButtonShown s = (\<not> isSessionFinished s \<and> status s = IDLE \<and> \<not> hasPostProcessed s)"

definition isGenerating :: "AppStatus \<Rightarrow> bool" where
  "isGenerating st = (st = PROCESSING)"

definition generateDisabled :: "AppStatus \<Rightarrow> bool" where
  "generateDisabled st = (isGenerating st \<or> st = RECORDING)"


section \<open>Reachable transcripts\<close>


inductive reachable_app :: "AppState \<Rightarrow> bool" where
  app_init: "reachable_app initialAppState"
| app_edit: "reachable_app s \<Longrightarrow> reachable_app (onEdit_app id' newText date s)"
| app_diarize: "reachable_app s \<Longrightarrow>
     reachable_app (fst (analyzeAudioAndDiarize_app env audioBlob s))"


section \<open>Notions the statements use\<close>




text \<open>A transcript of two entries and states that hold it, for the worked examples.\<close>

definition exampleItems :: "TranscriptItem list" where
  "exampleItems =
     [\<lparr>item_id = ''a'', speaker = ''Staff'', item_text = ''hello'', timestamp = 1, isFinal = True\<rparr>,
      \<lparr>item_id = ''b'', speaker = ''Client'', item_text = ''yes'', timestamp = 2, isFinal = True\<rparr>]"

definition exampleAppState :: AppState where
  "exampleAppState = initialAppState\<lparr>transcripts := exampleItems\<rparr>"

definition exampleLiveState :: LiveState where
  "exampleLiveState =
     initialLiveState\<lparr>transcripts := exampleItems, activeTranscriptIdRef := Some ''b'',
       lastUpdateTimeRef := 2\<rparr>"

text \<open>
  An environment for the worked examples: a key, a service that gives the same answer to
  every request, \<open>JSON.parse\<close> on the two texts the examples parse (the reply of the
  spec's scenario C, and an object), and a clock.
\<close>

definition scenarioC_reply :: string where
  \<open>scenarioC_reply = ''[{"speaker":"Nurse","text":"hi"}]''\<close>

definition exampleParse :: "string \<Rightarrow> parsed option" where
  "exampleParse t =
     (if t = scenarioC_reply then Some (RecordArray [\<lparr>rec_speaker = ''Nurse'', rec_text = ''hi''\<rparr>])
      else if t = ''{}'' then Some NotAnArray
      else None)"

definition exampleEnv :: "string + string option \<Rightarrow> Env" where
  "exampleEnv reply =
     \<lparr>API_KEY = Some ''key'', generateContent = (\<lambda>req. reply), JSON_parse = exampleParse,
      newDate = (\<lambda>index. 100 + int index)\<rparr>"

definition exampleBlob :: Blob where
  "exampleBlob = \<lparr>blob_bytes = [1, 2, 3], blob_type = ''audio/webm''\<rparr>"

text \<open>A recording of 14942209 bytes: its base64 text has 19922948 characters.\<close>

definition largeBlob :: Blob where
  "largeBlob = \<lparr>blob_bytes = replicate 14942209 0, blob_type = ''audio/webm''\<rparr>"

text \<open>
  The two outcomes of a diarization run, from the state \<open>s\<close> before it to the state
  \<open>s'\<close> after it. Failed with the exception \<open>e\<close>: the transcript is the one held
  before, the message reporting \<open>e\<close> is shown, and the status is Idle again. Succeeded
  with the entries \<open>new\<close>: they are the whole transcript, their ids are pairwise distinct,
  each is final, no message is shown and the status is Idle again.
\<close>

definition diarization_failed :: "error \<Rightarrow> 'a AppState_scheme \<Rightarrow> 'a AppState_scheme \<Rightarrow> bool" where
  "diarization_failed e s s' =
     (transcripts s' = transcripts s \<and> errorMsg s' = Some (AnalysisFailed e) \<and> status s' = IDLE)"

definition diarization_succeeded :: "TranscriptItem list \<Rightarrow> 'a AppState_scheme \<Rightarrow> bool" where
  "diarization_succeeded new s' =
     (transcripts s' = new \<and> distinct (map item_id new) \<and> list_all isFinal new \<and>
      status s' = IDLE \<and> errorMsg s' = None)"







section \<open>The PCM encoder\<close>












section \<open>Edits of the transcript\<close>

lemma find_item_None:
  "id' \<notin> item_id ` set ts \<Longrightarrow> find (\<lambda>t. item_id t = id') ts = None"
  by (auto simp: find_None_iff)

lemma find_item_Some:
  "id' \<in> item_id ` set ts \<Longrightarrow> \<exists>t. find (\<lambda>t. item_id t = id') ts = Some t"
  by (cases "find (\<lambda>t. item_id t = id') ts") (auto simp: find_None_iff)

lemma updateTranscript_live_nth:
  "k < length (transcripts s) \<Longrightarrow>
   transcripts (updateTranscript_live id' newText s) ! k =
     (if item_id (transcripts s ! k) = id' then (transcripts s ! k)\<lparr>item_text := newText\<rparr>
      else transcripts s ! k)"
  by (simp add: updateTranscript_live_def)

lemma onEdit_app_known:
  "id' \<in> item_id ` set (transcripts s) \<Longrightarrow>
   onEdit_app id' newText date s =
     s\<lparr>transcripts :=
        map (\<lambda>t. if item_id t = id' then t\<lparr>item_text := newText, isFinal := True\<rparr> else t)
          (transcripts s)\<rparr>"
  using find_item_Some [of id' "transcripts s"]
  by (auto simp: onEdit_app_def updateTranscript_app_def)

lemma final_updateTranscript_app:
  assumes "list_all isFinal (transcripts s)"
  shows "list_all isFinal (transcripts (onEdit_app id' newText date s))"
proof (cases "id' \<in> item_id ` set (transcripts s)")
  case True
  with assms show ?thesis
    by (auto simp: onEdit_app_known [OF True] list_all_iff)
next
  case False
  with assms show ?thesis
    by (simp add: onEdit_app_def updateTranscript_app_def find_item_None [OF False])
qed

lemma reachable_app_final: "reachable_app s \<Longrightarrow> list_all isFinal (transcripts s)"
proof (induction rule: reachable_app.induct)
  case app_init
  show ?case by (simp add: initialAppState_def)
next
  case (app_edit s id' newText date)
  from app_edit.IH show ?case by (rule final_updateTranscript_app)
next
  case (app_diarize s env audioBlob)
  have "transcripts (fst (analyzeAudioAndDiarize_app env audioBlob s)) = transcripts s \<or>
      (\<exists>rs. transcripts (fst (analyzeAudioAndDiarize_app env audioBlob s)) = autoItems env rs)"
    by (auto simp: analyzeAudioAndDiarize_app_def diarize_app_def Let_def
        split: sum.split option.split parsed.split)
  with app_diarize.IH show ?case
    by (auto simp: autoItems_def list_all_iff split_beta)
qed

text \<open>
  C9. In the version with live merging, \<open>updateTranscript\<close> keeps the length of the
  transcript and, at every position, the entry's id, speaker, timestamp and final flag; the
  text at a position is the new text if the entry's id is the edited one and the old text
  otherwise, so an entry with another id is unchanged; the active-entry cell, the
  last-update cell and every other part of the state are unchanged. In src/App.tsx the
  edit of an id present in the transcript (\<open>onEdit\<close>, which passes \<open>isFinal = true\<close>)
  likewise keeps length, ids, speakers and timestamps and leaves entries with another id
  unchanged; it writes the text and sets the final flag of the edited entry, so that of an
  entry that is final only the text changes; and every entry of a state that version
  reaches is final, so there the edit is the same overwrite of the text alone.
\<close>

theorem updateTranscript_overwrites_text_only:
  "length (transcripts (updateTranscript_live id' newText s)) = length (transcripts s) \<and>
   (\<forall>k < length (transcripts s).
      item_id (transcripts (updateTranscript_live id' newText s) ! k) = item_id (transcripts s ! k) \<and>
      speaker (transcripts (updateTranscript_live id' newText s) ! k) = speaker (transcripts s ! k) \<and>
      timestamp (transcripts (updateTranscript_live id' newText s) ! k) = timestamp (transcripts s ! k) \<and>
      isFinal (transcripts (updateTranscript_live id' newText s) ! k) = isFinal (transcripts s ! k) \<and>
      item_text (transcripts (updateTranscript_live id' newText s) ! k) =
        (if item_id (transcripts s ! k) = id' then newText else item_text (transcripts s ! k)) \<and>
      (item_id (transcripts s ! k) \<noteq> id' \<longrightarrow>
         transcripts (updateTranscript_live id' newText s) ! k = transcripts s ! k)) \<and>
   activeTranscriptIdRef (updateTranscript_live id' newText s) = activeTranscriptIdRef s \<and>
   lastUpdateTimeRef (updateTranscript_live id' newText s) = lastUpdateTimeRef s \<and>
   updateTranscript_live id' newText s =
     s\<lparr>transcripts := transcripts (updateTranscript_live id' newText s)\<rparr> \<and>
   (id' \<in> item_id ` set (transcripts a) \<longrightarrow>
      length (transcripts (onEdit_app id' newText date a)) = length (transcripts a) \<and>
      (\<forall>k < length (transcripts a).
         item_id (transcripts (onEdit_app id' newText date a) ! k) = item_id (transcripts a ! k) \<and>
         speaker (transcripts (onEdit_app id' newText date a) ! k) = speaker (transcripts a ! k) \<and>
         timestamp (transcripts (onEdit_app id' newText date a) ! k) = timestamp (transcripts a ! k) \<and>
         item_text (transcripts (onEdit_app id' newText date a) ! k) =
           (if item_id (transcripts a ! k) = id' then newText else item_text (transcripts a ! k)) \<and>
         isFinal (transcripts (onEdit_app id' newText date a) ! k) =
           (if item_id (transcripts a ! k) = id' then True else isFinal (transcripts a ! k)) \<and>
         (item_id (transcripts a ! k) \<noteq> id' \<longrightarrow>
            transcripts (onEdit_app id' newText date a) ! k = transcripts a ! k) \<and>
         (item_id (transcripts a ! k) = id' \<and> isFinal (transcripts a ! k) \<longrightarrow>
            transcripts (onEdit_app id' newText date a) ! k =
              (transcripts a ! k)\<lparr>item_text := newText\<rparr>)) \<and>
      onEdit_app id' newText date a =
        a\<lparr>transcripts := transcripts (onEdit_app id' newText date a)\<rparr>) \<and>
   (reachable_app a \<and> id' \<in> item_id ` set (transcripts a) \<longrightarrow>
      transcripts (onEdit_app id' newText date a) =
        map (\<lambda>t. if item_id t = id' then t\<lparr>item_text := newText\<rparr> else t) (transcripts a))"
proof -
  have reach: "transcripts (onEdit_app id' newText date a) =
        map (\<lambda>t. if item_id t = id' then t\<lparr>item_text := newText\<rparr> else t) (transcripts a)"
    if "reachable_app a" "id' \<in> item_id ` set (transcripts a)"
  proof -
    have "t\<lparr>item_text := newText, isFinal := True\<rparr> = t\<lparr>item_text := newText\<rparr>"
      if "t \<in> set (transcripts a)" for t
      using reachable_app_final [OF \<open>reachable_app a\<close>] that
      by (cases t) (auto simp: list_all_iff)
    then show ?thesis
      by (simp add: onEdit_app_known [OF that(2)])
  qed
  have final: "t\<lparr>item_text := newText, isFinal := True\<rparr> = t\<lparr>item_text := newText\<rparr>"
    if "isFinal t" for t :: TranscriptItem
    using that by (cases t) simp
  have live: "length (transcripts (updateTranscript_live id' newText s)) = length (transcripts s)"
    "activeTranscriptIdRef (updateTranscript_live id' newText s) = activeTranscriptIdRef s"
    "lastUpdateTimeRef (updateTranscript_live id' newText s) = lastUpdateTimeRef s"
    "updateTranscript_live id' newText s =
       s\<lparr>transcripts := transcripts (updateTranscript_live id' newText s)\<rparr>"
    by (simp_all add: updateTranscript_live_def)
  have app: "length (transcripts (onEdit_app id' newText date a)) = length (transcripts a)"
    "onEdit_app id' newText date a = a\<lparr>transcripts := transcripts (onEdit_app id' newText date a)\<rparr>"
    "\<And>k. k < length (transcripts a) \<Longrightarrow>
       transcripts (onEdit_app id' newText date a) ! k =
         (if item_id (transcripts a ! k) = id'
          then (transcripts a ! k)\<lparr>item_text := newText, isFinal := True\<rparr>
          else transcripts a ! k)"
    if "id' \<in> item_id ` set (transcripts a)"
    by (simp_all add: onEdit_app_known [OF that])
  show ?thesis
    using live app final reach by (simp add: updateTranscript_live_nth)
qed

theorem updateTranscript_overwrites_text_only_witness:
  "''a'' \<in> item_id ` set (transcripts exampleAppState) \<and>
   (1::nat) < length (transcripts exampleLiveState) \<and>
   transcripts (updateTranscript_live ''a'' ''good morning'' exampleLiveState) =
     [\<lparr>item_id = ''a'', speaker = ''Staff'', item_text = ''good morning'', timestamp = 1,
       isFinal = True\<rparr>,
      \<lparr>item_id = ''b'', speaker = ''Client'', item_text = ''yes'', timestamp = 2, isFinal = True\<rparr>] \<and>
   activeTranscriptIdRef (updateTranscript_live ''a'' ''good morning'' exampleLiveState) = Some ''b'' \<and>
   transcripts (onEdit_app ''a'' ''good morning'' 7 exampleAppState) =
     transcripts (updateTranscript_live ''a'' ''good morning'' exampleLiveState) \<and>
   reachable_app (onEdit_app ''a'' ''hello'' 1 initialAppState) \<and>
   ''a'' \<in> item_id ` set (transcripts (onEdit_app ''a'' ''hello'' 1 initialAppState)) \<and>
   transcripts (onEdit_app ''a'' ''good morning'' 7 (onEdit_app ''a'' ''hello'' 1 initialAppState)) =
     [\<lparr>item_id = ''a'', speaker = ''Staff'', item_text = ''good morning'', timestamp = 1,
       isFinal = True\<rparr>]"
proof -
  have present: "''a'' \<in> item_id ` set (transcripts exampleAppState)"
    by (simp add: exampleAppState_def exampleItems_def)
  have two: "length (transcripts exampleLiveState) = 2" "length (transcripts exampleAppState) = 2"
    by (simp_all add: exampleLiveState_def exampleAppState_def exampleItems_def)
  have first: "onEdit_app ''a'' ''hello'' 1 initialAppState =
      initialAppState\<lparr>transcripts :=
        [\<lparr>item_id = ''a'', speaker = ''Staff'', item_text = ''hello'', timestamp = 1,
          isFinal = True\<rparr>]\<rparr>"
    by (simp add: onEdit_app_def updateTranscript_app_def initialAppState_def)
  have reached: "reachable_app (onEdit_app ''a'' ''hello'' 1 initialAppState)"
    by (rule app_edit [OF app_init])
  show ?thesis
    using updateTranscript_overwrites_text_only
        [of "''a''" "''good morning''" exampleLiveState exampleAppState 7]
      updateTranscript_overwrites_text_only
        [of "''a''" "''good morning''" exampleLiveState
          "onEdit_app ''a'' ''hello'' 1 initialAppState" 7]
      present two reached
    by (simp add: first exampleLiveState_def exampleAppState_def exampleItems_def
        updateTranscript_live_def onEdit_app_def updateTranscript_app_def
        initialLiveState_def initialAppState_def)
qed

text \<open>
  C10. In src/App.tsx, \<open>updateTranscript\<close> called with an id that no entry of the
  transcript has does not leave the transcript as it was: the new transcript is the old
  one followed by one entry with that id, the speaker Staff, the given text and final
  flag and the timestamp read at the call. Nothing else of the state changes.
\<close>

theorem updateTranscript_app_unknown_id_appends:
  "id' \<notin> item_id ` set (transcripts s) \<Longrightarrow>
   updateTranscript_app id' text isFinal' date s =
     s\<lparr>transcripts := transcripts s @
        [\<lparr>item_id = id', speaker = ''Staff'', item_text = text, timestamp = date,
          isFinal = isFinal'\<rparr>]\<rparr> \<and>
   transcripts (updateTranscript_app id' text isFinal' date s) \<noteq> transcripts s \<and>
   length (transcripts (updateTranscript_app id' text isFinal' date s)) =
     Suc (length (transcripts s)) \<and>
   take (length (transcripts s)) (transcripts (updateTranscript_app id' text isFinal' date s)) =
     transcripts s"
  by (simp add: updateTranscript_app_def find_item_None)

theorem updateTranscript_app_unknown_id_appends_witness:
  "''gone'' \<notin> item_id ` set (transcripts exampleAppState) \<and>
   transcripts (updateTranscript_app ''gone'' ''late edit'' True 9 exampleAppState) =
     exampleItems @
       [\<lparr>item_id = ''gone'', speaker = ''Staff'', item_text = ''late edit'', timestamp = 9,
         isFinal = True\<rparr>]"
  using updateTranscript_app_unknown_id_appends
    [of "''gone''" exampleAppState "''late edit''" True 9]
  by (simp add: exampleAppState_def exampleItems_def)


section \<open>What the controls permit\<close>

text \<open>
  C8, as stated, at the status Processing: the claim has summary generation permitted
  there, and the button that requests it is disabled (\<open>isGenerating\<close>).
\<close>

theorem generate_disabled_while_processing:
  "generateDisabled PROCESSING"
  by (simp add: generateDisabled_def isGenerating_def)

text \<open>
  C8, amended. In every state of src/App.tsx the button that starts a recording is
  rendered only when the status is Idle; the button that requests a summary is disabled
  exactly while the status is Recording or Processing: it is disabled while Recording and
  enabled while Idle.
\<close>

theorem session_gating:
  "(startButtonShown s \<longrightarrow> status s = IDLE) \<and>
   (generateDisabled st \<longleftrightarrow> st = RECORDING \<or> st = PROCESSING) \<and>
   generateDisabled RECORDING \<and> \<not> generateDisabled IDLE"
  by (cases st) (simp_all add: startButtonShown_def generateDisabled_def isGenerating_def)

theorem session_gating_witness:
  "startButtonShown initialAppState \<and> status initialAppState = IDLE \<and>
   generateDisabled PROCESSING \<and> \<not> generateDisabled CONNECTING"
  using session_gating [of initialAppState PROCESSING]
    session_gating [of initialAppState CONNECTING]
  by (simp add: startButtonShown_def initialAppState_def)


section \<open>Decimal numerals are injective\<close>

lemma of_char_digit: "d < 10 \<Longrightarrow> (of_char (digit d) :: nat) = 48 + d"
  by (simp add: digit_def)

lemma digit_inj: "a < 10 \<Longrightarrow> b < 10 \<Longrightarrow> digit a = digit b \<Longrightarrow> a = b"
proof -
  assume a: "a < 10" and b: "b < 10" and e: "digit a = digit b"
  from e have "(of_char (digit a) :: nat) = of_char (digit b)" by (simp only:)
  then have "48 + a = 48 + b" by (simp only: of_char_digit [OF a] of_char_digit [OF b])
  then show "a = b" by (simp only: add_left_cancel)
qed

lemma string_of_nat_nonempty: "string_of_nat n \<noteq> []"
  by (subst string_of_nat.simps) simp


lemma string_of_nat_inj: "string_of_nat n = string_of_nat m \<Longrightarrow> n = m"
proof (induction n arbitrary: m rule: string_of_nat.induct)
  case (1 n)
  show ?case
  proof (cases "n < 10")
    case n: True
    show ?thesis
    proof (cases "m < 10")
      case True
      with n "1.prems" show ?thesis
        by (subst (asm) string_of_nat.simps, subst (asm) (2) string_of_nat.simps) (simp add: digit_inj)
    next
      case False
      have "string_of_nat n = [digit n]" using n by (subst string_of_nat.simps) simp
      moreover have "string_of_nat m = string_of_nat (m div 10) @ [digit (m mod 10)]"
        using False by (subst string_of_nat.simps) simp
      ultimately show ?thesis using "1.prems" string_of_nat_nonempty [of "m div 10"] by simp
    qed
  next
    case n: False
    have en: "string_of_nat n = string_of_nat (n div 10) @ [digit (n mod 10)]"
      using n by (subst string_of_nat.simps) simp
    show ?thesis
    proof (cases "m < 10")
      case True
      then have "string_of_nat m = [digit m]" by (subst string_of_nat.simps) simp
      with en "1.prems" string_of_nat_nonempty [of "n div 10"] show ?thesis by simp
    next
      case False
      then have "string_of_nat m = string_of_nat (m div 10) @ [digit (m mod 10)]"
        by (subst string_of_nat.simps) simp
      with en "1.prems" have eq: "string_of_nat (n div 10) = string_of_nat (m div 10)"
        and d: "digit (n mod 10) = digit (m mod 10)" by simp_all
      from "1.IH" [OF n eq] have "n div 10 = m div 10" .
      moreover from d have "n mod 10 = m mod 10" by (intro digit_inj) simp_all
      ultimately show ?thesis by (metis div_mult_mod_eq)
    qed
  qed
qed







lemma digit_values:
  "digit 0 = CHR ''0''" "digit 1 = CHR ''1''" "digit 2 = CHR ''2''" "digit 3 = CHR ''3''"
  "digit 4 = CHR ''4''" "digit 5 = CHR ''5''" "digit 6 = CHR ''6''" "digit 7 = CHR ''7''"
  "digit 8 = CHR ''8''" "digit 9 = CHR ''9''" "digit (Suc 0) = CHR ''1''"
  by (simp_all add: digit_def char_of_def bit_Suc_0_iff)


lemma string_of_nat_small: "string_of_nat 0 = ''0''" "string_of_nat (Suc 0) = ''1''"
  by (subst string_of_nat.simps, simp add: digit_values)+


section \<open>Diarization\<close>

lemma length_btoa: "length (btoa s) = 4 * ((length s + 2) div 3)"
  by (induction s rule: btoa.induct) (simp_all add: Let_def, presburger?)

lemma length_arrayBufferToBase64:
  "length (arrayBufferToBase64 buffer) = 4 * ((length buffer + 2) div 3)"
  by (simp add: arrayBufferToBase64_def length_btoa)

lemma length_postProcessItems: "length (postProcessItems env rs) = length rs"
  by (simp add: postProcessItems_def)

lemma nth_postProcessItems:
  "k < length rs \<Longrightarrow>
   postProcessItems env rs ! k =
     \<lparr>item_id = ''post-process-'' @ string_of_nat k, speaker = rec_speaker (rs ! k),
      item_text = rec_text (rs ! k), timestamp = newDate env k, isFinal = True\<rparr>"
  by (simp add: postProcessItems_def nth_enumerate_eq)

lemma ids_postProcessItems:
  "map item_id (postProcessItems env rs) =
     map (\<lambda>i. ''post-process-'' @ string_of_nat i) [0..<length rs]"
  by (rule nth_equalityI) (simp_all add: length_postProcessItems nth_postProcessItems)

lemma distinct_postProcessItems: "distinct (map item_id (postProcessItems env rs))"
  unfolding ids_postProcessItems
  by (simp add: distinct_map inj_on_def string_of_nat_inj)

lemma final_postProcessItems: "list_all isFinal (postProcessItems env rs)"
  by (simp add: postProcessItems_def list_all_iff split_beta)

lemma length_autoItems: "length (autoItems env rs) = length rs"
  by (simp add: autoItems_def)

lemma nth_autoItems:
  "k < length rs \<Longrightarrow>
   autoItems env rs ! k =
     \<lparr>item_id = ''auto-'' @ string_of_nat k,
      speaker = (if rec_speaker (rs ! k) = ''Staff'' \<or> rec_speaker (rs ! k) = ''Client''
                 then rec_speaker (rs ! k) else ''Staff''),
      item_text = rec_text (rs ! k), timestamp = newDate env k, isFinal = True\<rparr>"
  by (simp add: autoItems_def nth_enumerate_eq)

lemma ids_autoItems:
  "map item_id (autoItems env rs) = map (\<lambda>i. ''auto-'' @ string_of_nat i) [0..<length rs]"
  by (rule nth_equalityI) (simp_all add: length_autoItems nth_autoItems)

lemma distinct_autoItems: "distinct (map item_id (autoItems env rs))"
  unfolding ids_autoItems
  by (simp add: distinct_map inj_on_def string_of_nat_inj)

lemma final_autoItems: "list_all isFinal (autoItems env rs)"
  by (simp add: autoItems_def list_all_iff split_beta)

lemma analyze_live_Inr:
  "hasApiKey env \<Longrightarrow> diarize_live env b = (Inr new, effects) \<Longrightarrow>
   analyzeAudioAndDiarize_live env (Some b) s =
     (s\<lparr>status := IDLE, errorMsg := None, transcripts := new, hasPostProcessed := True\<rparr>, effects)"
  by (simp add: analyzeAudioAndDiarize_live_def)

lemma analyze_live_Inl:
  "hasApiKey env \<Longrightarrow> diarize_live env b = (Inl e, effects) \<Longrightarrow>
   analyzeAudioAndDiarize_live env (Some b) s =
     (s\<lparr>status := IDLE, errorMsg := Some (AnalysisFailed e)\<rparr>, effects)"
  by (simp add: analyzeAudioAndDiarize_live_def)

lemma analyze_app_Inr:
  "hasApiKey env \<Longrightarrow> diarize_app env b = (Inr new, effects) \<Longrightarrow>
   analyzeAudioAndDiarize_app env b s =
     (s\<lparr>status := IDLE, errorMsg := None, transcripts := new, hasPostProcessed := True\<rparr>, effects)"
  by (simp add: analyzeAudioAndDiarize_app_def)

lemma analyze_app_Inl:
  "hasApiKey env \<Longrightarrow> diarize_app env b = (Inl e, effects) \<Longrightarrow>
   analyzeAudioAndDiarize_app env b s =
     (s\<lparr>status := IDLE, errorMsg := Some (AnalysisFailed e)\<rparr>, effects)"
  by (simp add: analyzeAudioAndDiarize_app_def)

lemma diarize_live_cases:
  assumes "length (arrayBufferToBase64 (blob_bytes b)) \<le> MAX_BASE64_LENGTH"
  shows "generateContent env (diarizeRequest_live b) = Inl msg \<Longrightarrow>
           diarize_live env b = (Inl (ServiceFailure msg), [Request (diarizeRequest_live b)])"
    and "generateContent env (diarizeRequest_live b) = Inr None \<Longrightarrow>
           diarize_live env b = (Inl EmptyResponse, [Request (diarizeRequest_live b)])"
    and "generateContent env (diarizeRequest_live b) = Inr (Some []) \<Longrightarrow>
           diarize_live env b = (Inl EmptyResponse, [Request (diarizeRequest_live b)])"
    and "generateContent env (diarizeRequest_live b) = Inr (Some t) \<Longrightarrow> t \<noteq> [] \<Longrightarrow>
           JSON_parse env t = None \<Longrightarrow>
           diarize_live env b = (Inl JsonSyntaxError, [Request (diarizeRequest_live b)])"
    and "generateContent env (diarizeRequest_live b) = Inr (Some t) \<Longrightarrow> t \<noteq> [] \<Longrightarrow>
           JSON_parse env t = Some NotAnArray \<Longrightarrow>
           diarize_live env b = (Inl NotAFunction, [Request (diarizeRequest_live b)])"
    and "generateContent env (diarizeRequest_live b) = Inr (Some t) \<Longrightarrow> t \<noteq> [] \<Longrightarrow>
           JSON_parse env t = Some (RecordArray rs) \<Longrightarrow>
           diarize_live env b = (Inr (postProcessItems env rs), [Request (diarizeRequest_live b)])"
  using assms by (simp_all add: diarize_live_def)

lemma diarize_live_too_large:
  "MAX_BASE64_LENGTH < length (arrayBufferToBase64 (blob_bytes b)) \<Longrightarrow>
   diarize_live env b = (Inl RecordingTooLarge, [])"
  by (simp add: diarize_live_def)

lemma diarize_live_total:
  "(\<exists>e effects. diarize_live env b = (Inl e, effects)) \<or>
   (\<exists>rs effects. diarize_live env b = (Inr (postProcessItems env rs), effects))"
  by (auto simp: diarize_live_def Let_def split: sum.split option.split parsed.split)

lemma diarize_app_cases:
  shows "generateContent env (diarizeRequest_app b) = Inl msg \<Longrightarrow>
           diarize_app env b = (Inl (ServiceFailure msg), [Request (diarizeRequest_app b)])"
    and "generateContent env (diarizeRequest_app b) = Inr rt \<Longrightarrow>
           JSON_parse env (cleanJsonText (case rt of None \<Rightarrow> [] | Some t \<Rightarrow> t)) = None \<Longrightarrow>
           diarize_app env b = (Inl JsonUnparseable, [Request (diarizeRequest_app b)])"
    and "generateContent env (diarizeRequest_app b) = Inr rt \<Longrightarrow>
           JSON_parse env (cleanJsonText (case rt of None \<Rightarrow> [] | Some t \<Rightarrow> t)) = Some NotAnArray \<Longrightarrow>
           diarize_app env b = (Inl NotAFunction, [Request (diarizeRequest_app b)])"
    and "generateContent env (diarizeRequest_app b) = Inr rt \<Longrightarrow>
           JSON_parse env (cleanJsonText (case rt of None \<Rightarrow> [] | Some t \<Rightarrow> t)) = Some (RecordArray rs) \<Longrightarrow>
           diarize_app env b = (Inr (autoItems env rs), [Request (diarizeRequest_app b)])"
  by (simp_all add: diarize_app_def)

lemma diarize_app_total:
  "(\<exists>e. diarize_app env b = (Inl e, [Request (diarizeRequest_app b)])) \<or>
   (\<exists>rs. diarize_app env b = (Inr (autoItems env rs), [Request (diarizeRequest_app b)]))"
  by (auto simp: diarize_app_def Let_def split: sum.split option.split parsed.split)

lemma cleanJsonText_empty: "cleanJsonText [] = []"
  by (simp add: cleanJsonText_def matchArray_def trim_def)

lemma failedI:
  "s' = s\<lparr>status := IDLE, errorMsg := Some (AnalysisFailed e)\<rparr> \<Longrightarrow> diarization_failed e s s'"
  by (simp add: diarization_failed_def)

lemma succeededI:
  "s' = s\<lparr>status := IDLE, errorMsg := None, transcripts := new, hasPostProcessed := True\<rparr> \<Longrightarrow>
   distinct (map item_id new) \<Longrightarrow> list_all isFinal new \<Longrightarrow> diarization_succeeded new s'"
  by (simp add: diarization_succeeded_def)

lemma exampleEnv_simps:
  "hasApiKey (exampleEnv reply)"
  "generateContent (exampleEnv reply) req = reply"
  "JSON_parse (exampleEnv reply) = exampleParse"
  "newDate (exampleEnv reply) index = 100 + int index"
  by (simp_all add: exampleEnv_def hasApiKey_def)

lemma exampleBlob_small: "length (arrayBufferToBase64 (blob_bytes exampleBlob)) \<le> MAX_BASE64_LENGTH"
  by (simp add: length_arrayBufferToBase64 exampleBlob_def MAX_BASE64_LENGTH_def)

lemma largeBlob_large: "MAX_BASE64_LENGTH < length (arrayBufferToBase64 (blob_bytes largeBlob))"
  by (simp add: length_arrayBufferToBase64 largeBlob_def MAX_BASE64_LENGTH_def)

lemma exampleParse_scenarioC:
  "exampleParse scenarioC_reply = Some (RecordArray [\<lparr>rec_speaker = ''Nurse'', rec_text = ''hi''\<rparr>])"
  by (simp add: exampleParse_def)

lemma cleanJsonText_scenarioC: "cleanJsonText scenarioC_reply = scenarioC_reply"
  by (simp add: cleanJsonText_def matchArray_def scenarioC_reply_def)

lemma scenarioC_nonempty: "scenarioC_reply \<noteq> []"
  by (simp add: scenarioC_reply_def)

lemma postProcessItems_single:
  "postProcessItems env [r] =
     [\<lparr>item_id = ''post-process-0'', speaker = rec_speaker r, item_text = rec_text r,
       timestamp = newDate env 0, isFinal = True\<rparr>]"
  by (simp add: postProcessItems_def enumerate_eq_zip string_of_nat_small)

lemma autoItems_single:
  "autoItems env [r] =
     [\<lparr>item_id = ''auto-0'',
       speaker = (if rec_speaker r = ''Staff'' \<or> rec_speaker r = ''Client'' then rec_speaker r
                  else ''Staff''),
       item_text = rec_text r, timestamp = newDate env 0, isFinal = True\<rparr>]"
  by (simp add: autoItems_def enumerate_eq_zip string_of_nat_small)

lemma exampleParse_values:
  "exampleParse [] = None" "exampleParse ''oops'' = None" "exampleParse ''{}'' = Some NotAnArray"
  by (simp_all add: exampleParse_def scenarioC_reply_def)

lemma cleanJsonText_values: "cleanJsonText ''{}'' = ''{}''" "cleanJsonText ''oops'' = ''oops''"
  by (simp_all add: cleanJsonText_def matchArray_def trim_def isWhiteSpace_def fence_def)

text \<open>
  C2. With an API key, a diarization run of either version ends in one of two ways. It
  succeeds when the service answers with a text that \<open>JSON.parse\<close> reads as an array of
  records: the transcript held before is discarded and the new transcript is the entries
  made from the records, one per record, with pairwise distinct ids and all final. It fails
  when the service rejects the request, when the response is empty, when \<open>JSON.parse\<close>
  throws or when the parsed value is no array: then the transcript after the run is the
  transcript before it, the message reporting the failure is shown and the status is Idle
  again, so the session goes on. Every run is one or the other. (In the version with live
  merging the cases are stated for a recording under the size limit; in src/App.tsx an
  empty response is parsed as the empty text, which \<open>JSON.parse\<close> rejects.)
\<close>

theorem diarization_replaces_or_keeps:
  fixes s :: LiveState and a :: AppState and env :: Env and b :: Blob
  defines "s' \<equiv> fst (analyzeAudioAndDiarize_live env (Some b) s)"
    and "a' \<equiv> fst (analyzeAudioAndDiarize_app env b a)"
    and "live_reply \<equiv> generateContent env (diarizeRequest_live b)"
    and "app_reply \<equiv> generateContent env (diarizeRequest_app b)"
  assumes key: "hasApiKey env"
  shows
    "(length (arrayBufferToBase64 (blob_bytes b)) \<le> MAX_BASE64_LENGTH \<longrightarrow>
        (live_reply = Inr (Some t) \<and> t \<noteq> [] \<and> JSON_parse env t = Some (RecordArray rs) \<longrightarrow>
           diarization_succeeded (postProcessItems env rs) s' \<and>
           length (postProcessItems env rs) = length rs) \<and>
        (live_reply = Inl msg \<longrightarrow> diarization_failed (ServiceFailure msg) s s') \<and>
        (live_reply = Inr None \<or> live_reply = Inr (Some []) \<longrightarrow>
           diarization_failed EmptyResponse s s') \<and>
        (live_reply = Inr (Some t) \<and> t \<noteq> [] \<and> JSON_parse env t = None \<longrightarrow>
           diarization_failed JsonSyntaxError s s') \<and>
        (live_reply = Inr (Some t) \<and> t \<noteq> [] \<and> JSON_parse env t = Some NotAnArray \<longrightarrow>
           diarization_failed NotAFunction s s')) \<and>
     ((\<exists>e. diarization_failed e s s') \<or>
      (\<exists>records. diarization_succeeded (postProcessItems env records) s')) \<and>
     (app_reply = Inr rt \<and>
      JSON_parse env (cleanJsonText (case rt of None \<Rightarrow> [] | Some t \<Rightarrow> t)) = Some (RecordArray rs) \<longrightarrow>
        diarization_succeeded (autoItems env rs) a' \<and> length (autoItems env rs) = length rs) \<and>
     (app_reply = Inl msg \<longrightarrow> diarization_failed (ServiceFailure msg) a a') \<and>
     (app_reply = Inr rt \<and>
      JSON_parse env (cleanJsonText (case rt of None \<Rightarrow> [] | Some t \<Rightarrow> t)) = None \<longrightarrow>
        diarization_failed JsonUnparseable a a') \<and>
     ((app_reply = Inr None \<or> app_reply = Inr (Some [])) \<and> JSON_parse env [] = None \<longrightarrow>
        diarization_failed JsonUnparseable a a') \<and>
     (app_reply = Inr rt \<and>
      JSON_parse env (cleanJsonText (case rt of None \<Rightarrow> [] | Some t \<Rightarrow> t)) = Some NotAnArray \<longrightarrow>
        diarization_failed NotAFunction a a') \<and>
     ((\<exists>e. diarization_failed e a a') \<or>
      (\<exists>records. diarization_succeeded (autoItems env records) a'))"
proof -
  note live_ok = succeededI [OF _ distinct_postProcessItems final_postProcessItems]
  note app_ok = succeededI [OF _ distinct_autoItems final_autoItems]
  have l1: "diarization_succeeded (postProcessItems env rs) s'"
    if "length (arrayBufferToBase64 (blob_bytes b)) \<le> MAX_BASE64_LENGTH"
      "live_reply = Inr (Some t)" "t \<noteq> []" "JSON_parse env t = Some (RecordArray rs)"
    using that unfolding s'_def live_reply_def
    by (intro live_ok) (simp add: analyze_live_Inr [OF key diarize_live_cases(6)])
  have l2: "diarization_failed (ServiceFailure msg) s s'"
    if "length (arrayBufferToBase64 (blob_bytes b)) \<le> MAX_BASE64_LENGTH" "live_reply = Inl msg"
    using that unfolding s'_def live_reply_def
    by (intro failedI) (simp add: analyze_live_Inl [OF key diarize_live_cases(1)])
  have l3: "diarization_failed EmptyResponse s s'"
    if "length (arrayBufferToBase64 (blob_bytes b)) \<le> MAX_BASE64_LENGTH"
      "live_reply = Inr None \<or> live_reply = Inr (Some [])"
    using that unfolding s'_def live_reply_def
    by (intro failedI)
      (auto simp: analyze_live_Inl [OF key diarize_live_cases(2)]
        analyze_live_Inl [OF key diarize_live_cases(3)])
  have l4: "diarization_failed JsonSyntaxError s s'"
    if "length (arrayBufferToBase64 (blob_bytes b)) \<le> MAX_BASE64_LENGTH"
      "live_reply = Inr (Some t)" "t \<noteq> []" "JSON_parse env t = None"
    using that unfolding s'_def live_reply_def
    by (intro failedI) (simp add: analyze_live_Inl [OF key diarize_live_cases(4)])
  have l5: "diarization_failed NotAFunction s s'"
    if "length (arrayBufferToBase64 (blob_bytes b)) \<le> MAX_BASE64_LENGTH"
      "live_reply = Inr (Some t)" "t \<noteq> []" "JSON_parse env t = Some NotAnArray"
    using that unfolding s'_def live_reply_def
    by (intro failedI) (simp add: analyze_live_Inl [OF key diarize_live_cases(5)])
  have l6: "(\<exists>e. diarization_failed e s s') \<or>
      (\<exists>records. diarization_succeeded (postProcessItems env records) s')"
    using diarize_live_total [of env b]
  proof (elim disjE exE)
    fix e effects assume "diarize_live env b = (Inl e, effects)"
    from analyze_live_Inl [OF key this] have "diarization_failed e s s'"
      unfolding s'_def by (intro failedI) simp
    then show ?thesis by blast
  next
    fix records effects assume "diarize_live env b = (Inr (postProcessItems env records), effects)"
    from analyze_live_Inr [OF key this]
    have "diarization_succeeded (postProcessItems env records) s'"
      unfolding s'_def by (intro live_ok) simp
    then show ?thesis by blast
  qed
  have a1: "diarization_succeeded (autoItems env rs) a'"
    if "app_reply = Inr rt"
      "JSON_parse env (cleanJsonText (case rt of None \<Rightarrow> [] | Some t \<Rightarrow> t)) = Some (RecordArray rs)"
    using that unfolding a'_def app_reply_def
    by (intro app_ok) (simp add: analyze_app_Inr [OF key diarize_app_cases(4)])
  have a2: "diarization_failed (ServiceFailure msg) a a'" if "app_reply = Inl msg"
    using that unfolding a'_def app_reply_def
    by (intro failedI) (simp add: analyze_app_Inl [OF key diarize_app_cases(1)])
  have a3: "diarization_failed JsonUnparseable a a'"
    if "app_reply = Inr r"
      "JSON_parse env (cleanJsonText (case r of None \<Rightarrow> [] | Some t \<Rightarrow> t)) = None" for r
    using that unfolding a'_def app_reply_def
    by (intro failedI) (simp add: analyze_app_Inl [OF key diarize_app_cases(2)])
  have a4: "diarization_failed JsonUnparseable a a'"
    if "app_reply = Inr None \<or> app_reply = Inr (Some [])" "JSON_parse env [] = None"
    using that a3 [of None] a3 [of "Some []"] by (auto simp: cleanJsonText_empty)
  have a5: "diarization_failed NotAFunction a a'"
    if "app_reply = Inr rt"
      "JSON_parse env (cleanJsonText (case rt of None \<Rightarrow> [] | Some t \<Rightarrow> t)) = Some NotAnArray"
    using that unfolding a'_def app_reply_def
    by (intro failedI) (simp add: analyze_app_Inl [OF key diarize_app_cases(3)])
  have a6: "(\<exists>e. diarization_failed e a a') \<or>
      (\<exists>records. diarization_succeeded (autoItems env records) a')"
    using diarize_app_total [of env b]
  proof (elim disjE exE)
    fix e assume "diarize_app env b = (Inl e, [Request (diarizeRequest_app b)])"
    from analyze_app_Inl [OF key this] have "diarization_failed e a a'"
      unfolding a'_def by (intro failedI) simp
    then show ?thesis by blast
  next
    fix records
    assume "diarize_app env b = (Inr (autoItems env records), [Request (diarizeRequest_app b)])"
    from analyze_app_Inr [OF key this]
    have "diarization_succeeded (autoItems env records) a'"
      unfolding a'_def by (intro app_ok) simp
    then show ?thesis by blast
  qed
  show ?thesis
    by (intro conjI impI; (elim conjE)?)
       (simp_all add: length_postProcessItems length_autoItems l1 l2 l3 l4 l5 l6 a1 a2 a3 a4 a5 a6)
qed

theorem diarization_replaces_or_keeps_witness:
  "hasApiKey (exampleEnv (Inr (Some scenarioC_reply))) \<and>
   length (arrayBufferToBase64 (blob_bytes exampleBlob)) \<le> MAX_BASE64_LENGTH \<and>
   diarization_succeeded
     [\<lparr>item_id = ''post-process-0'', speaker = ''Nurse'', item_text = ''hi'', timestamp = 100,
       isFinal = True\<rparr>]
     (fst (analyzeAudioAndDiarize_live (exampleEnv (Inr (Some scenarioC_reply)))
        (Some exampleBlob) exampleLiveState)) \<and>
   diarization_succeeded
     [\<lparr>item_id = ''auto-0'', speaker = ''Staff'', item_text = ''hi'', timestamp = 100,
       isFinal = True\<rparr>]
     (fst (analyzeAudioAndDiarize_app (exampleEnv (Inr (Some scenarioC_reply)))
        exampleBlob exampleAppState)) \<and>
   diarization_failed (ServiceFailure ''quota'') exampleLiveState
     (fst (analyzeAudioAndDiarize_live (exampleEnv (Inl ''quota'')) (Some exampleBlob)
        exampleLiveState)) \<and>
   transcripts (fst (analyzeAudioAndDiarize_live (exampleEnv (Inl ''quota'')) (Some exampleBlob)
        exampleLiveState)) = exampleItems \<and>
   diarization_failed (ServiceFailure ''quota'') exampleAppState
     (fst (analyzeAudioAndDiarize_app (exampleEnv (Inl ''quota'')) exampleBlob exampleAppState)) \<and>
   diarization_failed EmptyResponse exampleLiveState
     (fst (analyzeAudioAndDiarize_live (exampleEnv (Inr None)) (Some exampleBlob)
        exampleLiveState)) \<and>
   diarization_failed JsonSyntaxError exampleLiveState
     (fst (analyzeAudioAndDiarize_live (exampleEnv (Inr (Some ''oops''))) (Some exampleBlob)
        exampleLiveState)) \<and>
   diarization_failed NotAFunction exampleLiveState
     (fst (analyzeAudioAndDiarize_live (exampleEnv (Inr (Some ''{}''))) (Some exampleBlob)
        exampleLiveState)) \<and>
   diarization_failed JsonUnparseable exampleAppState
     (fst (analyzeAudioAndDiarize_app (exampleEnv (Inr None)) exampleBlob exampleAppState)) \<and>
   diarization_failed JsonUnparseable exampleAppState
     (fst (analyzeAudioAndDiarize_app (exampleEnv (Inr (Some ''oops''))) exampleBlob
        exampleAppState)) \<and>
   diarization_failed NotAFunction exampleAppState
     (fst (analyzeAudioAndDiarize_app (exampleEnv (Inr (Some ''{}''))) exampleBlob
        exampleAppState)) \<and>
   transcripts (fst (analyzeAudioAndDiarize_app (exampleEnv (Inr None)) exampleBlob
        exampleAppState)) = exampleItems"
proof -
  have ts: "transcripts exampleLiveState = exampleItems" "transcripts exampleAppState = exampleItems"
    by (simp_all add: exampleLiveState_def exampleAppState_def)
  note run = diarization_replaces_or_keeps [OF exampleEnv_simps(1), of exampleBlob]
  show ?thesis
    using
      run [of "Inr (Some scenarioC_reply)" scenarioC_reply
        "[\<lparr>rec_speaker = ''Nurse'', rec_text = ''hi''\<rparr>]" exampleLiveState "''none''"
        "Some scenarioC_reply" exampleAppState]
      run [of "Inl ''quota''" "[]" "[]" exampleLiveState "''quota''" None exampleAppState]
      run [of "Inr None" "[]" "[]" exampleLiveState "''none''" None exampleAppState]
      run [of "Inr (Some ''oops'')" "''oops''" "[]" exampleLiveState "''none''" "Some ''oops''"
        exampleAppState]
      run [of "Inr (Some ''{}'')" "''{}''" "[]" exampleLiveState "''none''" "Some ''{}''"
        exampleAppState]
    by (simp add: exampleEnv_simps exampleBlob_small exampleParse_scenarioC scenarioC_nonempty
        cleanJsonText_scenarioC postProcessItems_single autoItems_single exampleParse_values
        cleanJsonText_values cleanJsonText_empty diarization_failed_def ts)
qed

text \<open>
  The coercion of src/App.tsx: every record gives one entry, at the record's position,
  whose speaker is the record's if that is Staff or Client and Staff otherwise, and whose
  text is the record's.
\<close>

lemma autoItems_speaker:
  "k < length rs \<Longrightarrow>
   speaker (autoItems env rs ! k) =
     (if rec_speaker (rs ! k) = ''Staff'' \<or> rec_speaker (rs ! k) = ''Client''
      then rec_speaker (rs ! k) else ''Staff'') \<and>
   (speaker (autoItems env rs ! k) = ''Staff'' \<or> speaker (autoItems env rs ! k) = ''Client'') \<and>
   item_text (autoItems env rs ! k) = rec_text (rs ! k)"
  by (simp add: nth_autoItems)

text \<open>
  C5, the version with live merging, at the reply of the spec's scenario C: the entry made
  from the record keeps the speaker Nurse (the cast \<open>as SpeakerRole\<close> checks nothing).
\<close>

theorem analyzeAudioAndDiarize_live_keeps_unknown_speaker:
  "transcripts (fst (analyzeAudioAndDiarize_live (exampleEnv (Inr (Some scenarioC_reply)))
      (Some exampleBlob) initialLiveState)) =
     [\<lparr>item_id = ''post-process-0'', speaker = ''Nurse'', item_text = ''hi'', timestamp = 100,
       isFinal = True\<rparr>]"
proof -
  have "diarize_live (exampleEnv (Inr (Some scenarioC_reply))) exampleBlob =
      (Inr (postProcessItems (exampleEnv (Inr (Some scenarioC_reply)))
              [\<lparr>rec_speaker = ''Nurse'', rec_text = ''hi''\<rparr>]),
       [Request (diarizeRequest_live exampleBlob)])"
    by (rule diarize_live_cases(6) [OF exampleBlob_small _ scenarioC_nonempty])
       (simp_all add: exampleEnv_simps exampleParse_scenarioC)
  from analyze_live_Inr [OF exampleEnv_simps(1) this] show ?thesis
    by (simp add: postProcessItems_single exampleEnv_simps)
qed

text \<open>
  The size check of the version with live merging: a recording whose base64 text is longer
  than the limit is rejected before any request; the transcript is unchanged and the
  message reports the size.
\<close>

lemma analyzeAudioAndDiarize_live_too_large:
  "hasApiKey env \<Longrightarrow> MAX_BASE64_LENGTH < length (arrayBufferToBase64 (blob_bytes b)) \<Longrightarrow>
   analyzeAudioAndDiarize_live env (Some b) s =
     (s\<lparr>status := IDLE, errorMsg := Some (AnalysisFailed RecordingTooLarge)\<rparr>, [])"
  by (simp add: analyze_live_Inl diarize_live_too_large)

text \<open>In src/App.tsx every run with an API key sends the diarization request.\<close>

lemma analyzeAudioAndDiarize_app_requests:
  "hasApiKey env \<Longrightarrow>
   snd (analyzeAudioAndDiarize_app env b s) = [Request (diarizeRequest_app b)]"
  using diarize_app_total [of env b]
  by (auto simp: analyze_app_Inl analyze_app_Inr)

text \<open>
  C7, the version of src/App.tsx, which has no size check: with an API key it sends the
  diarization request whatever the size of the recording. At a recording whose base64 text
  is longer than the limit the request is sent, and what is shown is the service's
  rejection.
\<close>

theorem analyzeAudioAndDiarize_app_sends_oversized_payload:
  "MAX_BASE64_LENGTH < length (arrayBufferToBase64 (blob_bytes largeBlob)) \<and>
   analyzeAudioAndDiarize_app (exampleEnv (Inl ''request too large'')) largeBlob exampleAppState =
     (exampleAppState\<lparr>status := IDLE,
        errorMsg := Some (AnalysisFailed (ServiceFailure ''request too large''))\<rparr>,
      [Request (diarizeRequest_app largeBlob)])"
proof -
  have "diarize_app (exampleEnv (Inl ''request too large'')) largeBlob =
      (Inl (ServiceFailure ''request too large''), [Request (diarizeRequest_app largeBlob)])"
    by (rule diarize_app_cases(1)) (simp only: exampleEnv_simps)
  from analyze_app_Inl [OF exampleEnv_simps(1) this] largeBlob_large show ?thesis
    by (simp only: simp_thms)
qed


section \<open>Summary generation\<close>

text \<open>
  The input check of src/App.tsx: with an empty transcript and no document the function
  returns after the alert; no request is sent and the state is unchanged.
\<close>

lemma generateSummary_app_empty_input:
  "hasApiKey env \<Longrightarrow> transcripts s = [] \<Longrightarrow> documents s = [] \<Longrightarrow>
   generateSummary_app env templateId customInstruction s = (s, [Alert NothingToSummarize])"
  by (simp add: generateSummary_app_def)

text \<open>
  C6, the version with live merging, which has no such check: with an empty transcript
  and no document it sends the request and stores the answer as the summary.
\<close>

theorem generateSummary_live_requests_on_empty_input:
  "transcripts initialLiveState = [] \<and> documents initialLiveState = [] \<and>
   generateSummary_live (exampleEnv (Inr (Some ''nothing was said''))) ''free'' [] initialLiveState =
     (initialLiveState\<lparr>summary := ''nothing was said''\<rparr>,
      [Request (Summarize ''free'' [] [] [])])"
  by (simp add: generateSummary_live_def exampleEnv_simps initialLiveState_def)


section \<open>Live merging\<close>






























end
